theory Spec2Isabelle
  imports Complex_Main "HOL-Library.Word"
begin

unbundle bit_operations_syntax

section \<open>The MPU-9250 driver (package mpu9250) as a shallow embedding\<close>

text \<open>
  The embedding follows the driver of package \<open>mpu9250\<close>: construction with the identity
  check, the register transactions, the scale selection, the unit conversion, the
  acquisition loop and the accessors. The later package \<open>mpu\<close> has the same
  \<open>getReadingScales\<close> and the same conversions.

  Conventions of the embedding.
  \<^item> A Go \<open>byte\<close> is an \<open>8 word\<close>; an \<open>int16\<close> is a \<open>16 word\<close> read with \<open>sint\<close>.
  \<^item> A Go \<open>float64\<close> is modelled by a \<open>real\<close>: arithmetic is exact, rounding is not
    modelled. The scale factors are dyadic rationals, which float64 represents exactly.
  \<^item> A Go \<open>error\<close> result is an \<open>error option\<close>, \<open>None\<close> being \<open>nil\<close>; a multiple
    return is a tuple in the order of the source.
  \<^item> A run-time panic (an index or a slice bound out of range) is the value \<open>None\<close> of an
    outer \<open>option\<close>.
  \<^item> The I2C bus is an external collaborator: its behaviour at the moment of a call is a
    record of response functions, passed as an argument.
  \<^item> The package-level variables \<open>gyroScale\<close> and \<open>accelScale\<close> and the entries handed to
    the logger are the fields of the record \<open>process\<close>, passed through every function that
    reads or writes them.
  \<^item> The mutex \<open>mu\<close> is not modelled: every accessor and every poll tick is one atomic step.
\<close>

type_synonym byte = "8 word"

subsection \<open>Errors and log entries\<close>

text \<open>
  Error values. \<open>BusFault\<close> is an error produced by the I2C transport (opaque to the driver),
  \<open>Errorf\<close> is \<open>errors.Errorf(format, args...)\<close>, \<open>Wrap\<close> is
  \<open>errors.Wrap(err, fmt.Sprintf(format, args...))\<close>; a formatted message is kept as its
  format string and its arguments. The four \<open>ErrMethodUnimplemented...\<close> values are the
  sentinel errors of package movementsensor that the driver returns: fixed values, one for
  each method, distinct from every other error.
\<close>

datatype arg = ArgByte byte | ArgString string | ArgErrorText error
and error =
    BusFault string
  | Errorf string "arg list"
  | Wrap error string "arg list"
  | ErrMethodUnimplementedLinearVelocity
  | ErrMethodUnimplementedOrientation
  | ErrMethodUnimplementedCompassHeading
  | ErrMethodUnimplementedPosition

datatype log_entry =
    CDebugf string "arg list"
  | CError error
  | CErrorf string "arg list"

subsection \<open>The windowed error tracker (movementsensor.LastError)\<close>

text \<open>
  Modelled from the spec: the type \<open>movementsensor.LastError\<close> with \<open>NewLastError\<close>,
  \<open>Set\<close> and \<open>Get\<close> belongs to the host runtime's library and is not among the source
  files. The spec describes it as a sliding-window fault tracker over the last N transport
  attempts (N = 10, threshold 5 of 10), reporting faulted only when a threshold of the recent
  attempts failed, mutated only by the acquisition loop and read by the accessors, and the
  snapshot as holding the most recent transport error. The record keeps the window size
  (\<open>window_size\<close>), the threshold and the recorded attempts, oldest first, \<open>None\<close> being
  an attempt that succeeded.
\<close>

record LastError =
  window_size :: nat
  threshold :: nat
  errs :: "error option list"

text \<open>
  Modelled from the spec: \<open>NewLastError(size, threshold)\<close>, a tracker with no attempt
  recorded yet.
\<close>

definition NewLastError :: "nat \<Rightarrow> nat \<Rightarrow> LastError" where
  "NewLastError n t = \<lparr>window_size = n, threshold = t, errs = []\<rparr>"

text \<open>
  Modelled from the spec: the method \<open>Set(err)\<close> records one attempt and keeps the last
  \<open>window_size\<close> attempts.
\<close>

definition Set_err :: "error option \<Rightarrow> LastError \<Rightarrow> LastError" where
  "Set_err e le =
     le\<lparr>errs := drop (Suc (length (errs le)) - window_size le) (errs le @ [e])\<rparr>"

text \<open>The errors of the failed attempts of a window, oldest first.\<close>

definition failures :: "error option list \<Rightarrow> error list" where
  "failures es = concat (map (\<lambda>e. case e of None \<Rightarrow> [] | Some x \<Rightarrow> [x]) es)"

text \<open>
  Modelled from the spec: the method \<open>Get()\<close> reads the verdict: the most recent error when
  at least \<open>threshold\<close> of the attempts in the window failed, and nil otherwise.
\<close>

definition Get_err :: "LastError \<Rightarrow> error option" where
  "Get_err le =
     (let fs = failures (errs le)
      in if fs = [] \<or> length fs < threshold le then None else Some (last fs))"

subsection \<open>Data of the driver\<close>

text \<open>\<open>r3.Vector\<close>; \<open>spatialmath.AngularVelocity\<close> is the same structure.\<close>

record Vector =
  X :: real
  Y :: real
  Z :: real

type_synonym AngularVelocity = Vector

definition zero_Vector :: Vector where
  "zero_Vector = \<lparr>X = 0, Y = 0, Z = 0\<rparr>"

record Config =
  I2cBus :: string
  UseAlternateI2CAddress :: bool

datatype workers_state = NoWorkers | WorkersRunning | WorkersStopped

text \<open>
  The struct \<open>mpu9250\<close>. The fields \<open>Named\<close>, \<open>AlwaysRebuild\<close>, \<open>mu\<close> and \<open>logger\<close>
  carry no data of the model; \<open>bus\<close> is the argument \<open>bus\<close> of the functions below.
\<close>

record mpu9250 =
  i2cAddress :: byte
  angularVelocity :: AngularVelocity
  temperature :: real
  linearAcceleration :: Vector
  err :: LastError
  workers :: workers_state

record process =
  gyroScale :: real
  accelScale :: real
  logged :: "log_entry list"

text \<open>
  The interface \<open>buses.I2C\<close> with its handle: \<open>OpenHandle addr\<close>, and for a handle opened
  at \<open>addr\<close>, \<open>ReadBlockData addr register length\<close>, \<open>WriteByteData addr register value\<close>
  and \<open>CloseHandle addr\<close>.
\<close>

record i2c_bus =
  OpenHandle :: "byte \<Rightarrow> error option"
  ReadBlockData :: "byte \<Rightarrow> byte \<Rightarrow> byte \<Rightarrow> byte list \<times> error option"
  WriteByteData :: "byte \<Rightarrow> byte \<Rightarrow> byte \<Rightarrow> error option"
  CloseHandle :: "byte \<Rightarrow> error option"

definition defaultAddressRegister :: byte where "defaultAddressRegister = 117"
definition expectedDefaultAddress :: byte where "expectedDefaultAddress = 0x68"
definition expectedConfigurationReadAddress :: byte where "expectedConfigurationReadAddress = 0x71"
definition alternateAddress :: byte where "alternateAddress = 0x69"

subsection \<open>Register transactions\<close>

text \<open>The deferred \<open>handle.Close()\<close>: its error is logged, never returned.\<close>

definition close_handle :: "i2c_bus \<Rightarrow> mpu9250 \<Rightarrow> process \<Rightarrow> process" where
  "close_handle bus mpu p =
     (case CloseHandle bus (i2cAddress mpu) of
        None \<Rightarrow> p
      | Some e \<Rightarrow> p\<lparr>logged := logged p @ [CError e]\<rparr>)"

definition readBlock ::
  "i2c_bus \<Rightarrow> mpu9250 \<Rightarrow> byte \<Rightarrow> byte \<Rightarrow> process \<Rightarrow> (byte list \<times> error option) \<times> process" where
  "readBlock bus mpu register len p =
     (case OpenHandle bus (i2cAddress mpu) of
        Some e \<Rightarrow> (([], Some e), p)
      | None \<Rightarrow> (ReadBlockData bus (i2cAddress mpu) register len, close_handle bus mpu p))"

definition readByte ::
  "i2c_bus \<Rightarrow> mpu9250 \<Rightarrow> byte \<Rightarrow> process \<Rightarrow> (byte \<times> error option) option \<times> process" where
  "readByte bus mpu register p =
     (case readBlock bus mpu register 1 p of
        ((result, Some e), p') \<Rightarrow> (Some (0, Some e), p')
      | (([], None), p') \<Rightarrow> (None, p')
      | ((b # _, None), p') \<Rightarrow> (Some (b, None), p'))"

definition writeByte ::
  "i2c_bus \<Rightarrow> mpu9250 \<Rightarrow> byte \<Rightarrow> byte \<Rightarrow> process \<Rightarrow> error option \<times> process" where
  "writeByte bus mpu register v p =
     (case OpenHandle bus (i2cAddress mpu) of
        Some e \<Rightarrow> (Some e, p)
      | None \<Rightarrow> (WriteByteData bus (i2cAddress mpu) register v, close_handle bus mpu p))"

subsection \<open>Scale selection\<close>

text \<open>
  The two \<open>switch result\<close> statements of \<open>getReadingScales\<close>. The case labels are the
  Go literals \<open>00\<close>, \<open>01\<close> (octal: 0 and 1), \<open>10\<close> and \<open>11\<close> (decimal: ten and eleven);
  the empty \<open>default\<close> leaves the variable at its zero value.
\<close>

definition gyro_switch :: "byte \<Rightarrow> real" where
  "gyro_switch result =
     (if result = 0 then 250.0 / 32768.0
      else if result = 1 then 500.0 / 32768.0
      else if result = 10 then 1000.0 / 32768.0
      else if result = 11 then 2000.0 / 32768.0
      else 0)"

definition accel_switch :: "byte \<Rightarrow> real" where
  "accel_switch result =
     (if result = 0 then 2.0 / 32768.0
      else if result = 1 then 4.0 / 32768.0
      else if result = 10 then 8.0 / 32768.0
      else if result = 11 then 16.0 / 32768.0
      else 0)"

text \<open>Returns \<open>(gyroScale, accelScale, err)\<close>.\<close>

definition getReadingScales ::
  "i2c_bus \<Rightarrow> mpu9250 \<Rightarrow> process \<Rightarrow> (real \<times> real \<times> error option) option \<times> process" where
  "getReadingScales bus mpu p =
     (case readByte bus mpu 27 p of
        (None, p1) \<Rightarrow> (None, p1)
      | (Some (result, Some e), p1) \<Rightarrow> (Some (0, 0, Some e), p1)
      | (Some (result, None), p1) \<Rightarrow>
          (case readByte bus mpu 28 p1 of
             (None, p2) \<Rightarrow> (None, p2)
           | (Some (result', Some e), p2) \<Rightarrow> (Some (0, 0, Some e), p2)
           | (Some (result', None), p2) \<Rightarrow>
               (Some (gyro_switch result, accel_switch result', None), p2)))"

subsection \<open>Unit conversion\<close>

text \<open>
  Modelled from the spec: \<open>utils.Int16FromBytesBE\<close> belongs to the host runtime's library
  and is not among the source files. The spec: decode 2 bytes as a big-endian signed 16-bit
  integer. Fewer than two bytes is an index out of range.
\<close>

definition be16 :: "byte \<Rightarrow> byte \<Rightarrow> 16 word" where
  "be16 hi lo = push_bit 8 (ucast hi) OR ucast lo"

text \<open>
  Modelled from the spec: \<open>utils.Int16FromBytesBE\<close>, the 16-bit word of the first two
  bytes, high byte first; the caller reads it as a signed number.
\<close>

fun Int16FromBytesBE :: "byte list \<Rightarrow> 16 word option" where
  "Int16FromBytesBE (hi # lo # _) = Some (be16 hi lo)"
| "Int16FromBytesBE _ = None"

text \<open>
  The slice expression \<open>xs[lo:hi]\<close>, for a slice whose capacity is its length; bounds out
  of range panic.
\<close>

definition slice :: "'a list \<Rightarrow> nat \<Rightarrow> nat \<Rightarrow> 'a list option" where
  "slice xs lo hi =
     (if lo \<le> hi \<and> hi \<le> length xs then Some (take (hi - lo) (drop lo xs)) else None)"

definition setScale :: "int \<Rightarrow> real \<Rightarrow> real" where
  "setScale v maxValue = real_of_int v * maxValue"

definition int16_at :: "byte list \<Rightarrow> nat \<Rightarrow> nat \<Rightarrow> int option" where
  "int16_at data lo hi = map_option sint (Option.bind (slice data lo hi) Int16FromBytesBE)"

definition toAngularVelocity :: "process \<Rightarrow> byte list \<Rightarrow> AngularVelocity option" where
  "toAngularVelocity p data =
     (case int16_at data 0 2 of None \<Rightarrow> None | Some gx \<Rightarrow>
      case int16_at data 2 4 of None \<Rightarrow> None | Some gy \<Rightarrow>
      case int16_at data 4 6 of None \<Rightarrow> None | Some gz \<Rightarrow>
        Some \<lparr>X = setScale gx (gyroScale p),
              Y = setScale gy (gyroScale p),
              Z = setScale gz (gyroScale p)\<rparr>)"

definition toLinearAcceleration :: "process \<Rightarrow> byte list \<Rightarrow> Vector option" where
  "toLinearAcceleration p data =
     (case int16_at data 0 2 of None \<Rightarrow> None | Some x \<Rightarrow>
      case int16_at data 2 4 of None \<Rightarrow> None | Some y \<Rightarrow>
      case int16_at data 4 6 of None \<Rightarrow> None | Some z \<Rightarrow>
        Some \<lparr>X = setScale x (accelScale p) * 9.81,
              Y = setScale y (accelScale p) * 9.81,
              Z = setScale z (accelScale p) * 9.81\<rparr>)"

subsection \<open>Construction\<close>

definition addressReadError :: "error \<Rightarrow> byte \<Rightarrow> string \<Rightarrow> error" where
  "addressReadError e address bus =
     Wrap e ''can't read from I2C address %d on bus %s'' [ArgByte address, ArgString bus]"

definition unexpectedDeviceError :: "byte \<Rightarrow> byte \<Rightarrow> error" where
  "unexpectedDeviceError address defaultAddress =
     Errorf (''unexpected non-MPU9250 device at address %d: response '%d'' @ [CHR 0x27])
       [ArgByte address, ArgByte defaultAddress]"

definition new_sensor :: "byte \<Rightarrow> mpu9250" where
  "new_sensor address =
     \<lparr>i2cAddress = address,
      angularVelocity = zero_Vector,
      temperature = 0,
      linearAcceleration = zero_Vector,
      err = NewLastError 10 5,
      workers = NoWorkers\<rparr>"

text \<open>
  \<open>makeMpu9250\<close>. The argument \<open>conf\<close> is the outcome of \<open>resource.NativeConfig\<close> on the
  host's configuration. The result is \<open>(sensor, err)\<close> with \<open>None\<close> for a nil sensor. On
  success the background worker has been started. Within one call the bus answers every
  transaction by the same response functions.
\<close>

definition makeMpu9250 ::
  "error + Config \<Rightarrow> i2c_bus \<Rightarrow> process \<Rightarrow> (mpu9250 option \<times> error option) option \<times> process" where
  "makeMpu9250 conf bus p =
     (case conf of
        Inl e \<Rightarrow> (Some (None, Some e), p)
      | Inr newConf \<Rightarrow>
          let address = (if UseAlternateI2CAddress newConf then alternateAddress
                         else expectedDefaultAddress);
              p0 = p\<lparr>logged := logged p @
                     [CDebugf ''Using address %d for MPU9250 sensor'' [ArgByte address]]\<rparr>;
              sensor = new_sensor address
          in case readByte bus sensor defaultAddressRegister p0 of
               (None, p1) \<Rightarrow> (None, p1)
             | (Some (defaultAddress, Some e), p1) \<Rightarrow>
                 (Some (None, Some (addressReadError e address (I2cBus newConf))), p1)
             | (Some (defaultAddress, None), p1) \<Rightarrow>
                 if defaultAddress \<noteq> expectedConfigurationReadAddress
                 then (Some (None, Some (unexpectedDeviceError address defaultAddress)), p1)
                 else
                   (case writeByte bus sensor 107 0 p1 of
                      (Some e, p2) \<Rightarrow>
                        (Some (None,
                           Some (Errorf (''Unable to wake up MPU9250: '%s'' @ [CHR 0x27])
                                   [ArgErrorText e])), p2)
                    | (None, p2) \<Rightarrow>
                        (case getReadingScales bus sensor p2 of
                           (None, p3) \<Rightarrow> (None, p3)
                         | (Some (g, a, e), p3) \<Rightarrow>
                             let p4 = p3\<lparr>gyroScale := g, accelScale := a\<rparr>
                             in case e of
                                  Some x \<Rightarrow> (Some (None, Some x), p4)
                                | None \<Rightarrow>
                                    (Some (Some (sensor\<lparr>workers := WorkersRunning\<rparr>), None),
                                     p4))))"

subsection \<open>The acquisition loop\<close>

text \<open>
  The decode step of one tick: \<open>(linearAcceleration, temperature, angularVelocity)\<close> from
  the 14 bytes of the burst read; \<open>None\<close> when a slice bound is out of range.
\<close>

definition decode :: "process \<Rightarrow> byte list \<Rightarrow> (Vector \<times> real \<times> AngularVelocity) option" where
  "decode p rawData =
     (case Option.bind (slice rawData 0 6) (toLinearAcceleration p) of None \<Rightarrow> None
      | Some la \<Rightarrow>
     (case int16_at rawData 6 8 of None \<Rightarrow> None
      | Some t \<Rightarrow>
     (case Option.bind (slice rawData 8 14) (toAngularVelocity p) of None \<Rightarrow> None
      | Some av \<Rightarrow> Some (la, real_of_int t / 333.87 + 21.0, av))))"

text \<open>
  The body of \<open>case <-timer.C\<close>, with the bus as it behaves during this tick. The first
  component tells whether the body panicked.
\<close>

datatype tick_outcome = Completed | Panicked

definition poll_tick :: "i2c_bus \<Rightarrow> mpu9250 \<Rightarrow> process \<Rightarrow> tick_outcome \<times> mpu9250 \<times> process" where
  "poll_tick bus sensor p =
     (case readBlock bus sensor 59 14 p of
        ((rawData, e), p1) \<Rightarrow>
          let sensor1 = sensor\<lparr>err := Set_err e (err sensor)\<rparr>
          in (case e of
                Some x \<Rightarrow>
                  (Completed, sensor1,
                   p1\<lparr>logged := logged p1 @
                     [CErrorf (''error reading MPU9250 sensor: '%s'' @ [CHR 0x27])
                        [ArgErrorText x]]\<rparr>)
              | None \<Rightarrow>
                  (case decode p1 rawData of
                     None \<Rightarrow> (Panicked, sensor1, p1)
                   | Some (la, t, av) \<Rightarrow>
                       (Completed,
                        sensor1\<lparr>linearAcceleration := la, temperature := t,
                                angularVelocity := av\<rparr>,
                        p1))))"

text \<open>
  The worker's \<open>for { select { ... } }\<close>, run on the events the select receives: a timer
  tick (with the bus as it behaves then) or the cancellation. With no event left the worker
  is blocked in the select.
\<close>

datatype event = Tick i2c_bus | Done

datatype worker_status = Blocked | Returned | Crashed

fun worker :: "event list \<Rightarrow> mpu9250 \<Rightarrow> process \<Rightarrow> worker_status \<times> mpu9250 \<times> process" where
  "worker [] sensor p = (Blocked, sensor, p)"
| "worker (Done # evs) sensor p = (Returned, sensor, p)"
| "worker (Tick bus # evs) sensor p =
     (case poll_tick bus sensor p of
        (Panicked, sensor', p') \<Rightarrow> (Crashed, sensor', p')
      | (Completed, sensor', p') \<Rightarrow> worker evs sensor' p')"

subsection \<open>The accessors\<close>

datatype Orientation = NewOrientationVector
datatype Point = NewPoint real real
datatype Accuracy = UnimplementedOptionalAccuracies

record Properties =
  AngularVelocitySupported :: bool
  LinearAccelerationSupported :: bool

datatype reading = VectorValue Vector | Float64Value real | AngularVelocityValue AngularVelocity

definition AngularVelocity :: "mpu9250 \<Rightarrow> AngularVelocity \<times> error option" where
  "AngularVelocity mpu = (angularVelocity mpu, Get_err (err mpu))"

definition LinearVelocity :: "mpu9250 \<Rightarrow> Vector \<times> error option" where
  "LinearVelocity mpu = (zero_Vector, Some ErrMethodUnimplementedLinearVelocity)"

definition LinearAcceleration :: "mpu9250 \<Rightarrow> Vector \<times> error option" where
  "LinearAcceleration mpu =
     (let lastError = Get_err (err mpu)
      in if lastError \<noteq> None then (zero_Vector, lastError)
         else (linearAcceleration mpu, None))"

definition Orientation :: "mpu9250 \<Rightarrow> Orientation \<times> error option" where
  "Orientation mpu = (NewOrientationVector, Some ErrMethodUnimplementedOrientation)"

definition CompassHeading :: "mpu9250 \<Rightarrow> real \<times> error option" where
  "CompassHeading mpu = (0, Some ErrMethodUnimplementedCompassHeading)"

definition Position :: "mpu9250 \<Rightarrow> Point \<times> real \<times> error option" where
  "Position mpu = (NewPoint 0 0, 0, Some ErrMethodUnimplementedPosition)"

definition Accuracy :: "mpu9250 \<Rightarrow> Accuracy \<times> error option" where
  "Accuracy mpu = (UnimplementedOptionalAccuracies, None)"

definition Readings :: "mpu9250 \<Rightarrow> (string \<rightharpoonup> reading) \<times> error option" where
  "Readings mpu =
     (let readings = Map.empty;
          readings = readings(''linear_acceleration'' \<mapsto> VectorValue (linearAcceleration mpu));
          readings = readings(''temperature_celsius'' \<mapsto> Float64Value (temperature mpu));
          readings = readings(''angular_velocity'' \<mapsto> AngularVelocityValue (angularVelocity mpu))
      in (readings, Get_err (err mpu)))"

definition Properties :: "mpu9250 \<Rightarrow> Properties \<times> error option" where
  "Properties mpu =
     (\<lparr>AngularVelocitySupported = True, LinearAccelerationSupported = True\<rparr>, None)"

text \<open>
  \<open>Close\<close>: \<open>workers.Stop()\<close>, then the write of \<open>1<<6\<close> to register 107; the error of
  the write is logged and is the value returned.
\<close>

definition Close :: "i2c_bus \<Rightarrow> mpu9250 \<Rightarrow> process \<Rightarrow> error option \<times> mpu9250 \<times> process" where
  "Close bus mpu p =
     (let mpu1 = mpu\<lparr>workers := WorkersStopped\<rparr>
      in case writeByte bus mpu1 107 (push_bit 6 1) p of
           (e, p1) \<Rightarrow>
             (e, mpu1,
              (case e of None \<Rightarrow> p1 | Some x \<Rightarrow> p1\<lparr>logged := logged p1 @ [CError x]\<rparr>)))"

text \<open>
  The exported methods that the source declares on \<open>*mpu9250\<close>, by name, each with the
  error it returns; \<open>None\<close> for a name the source declares no method for.
\<close>

definition method_error ::
  "string \<Rightarrow> i2c_bus \<Rightarrow> mpu9250 \<Rightarrow> process \<Rightarrow> error option option" where
  "method_error name bus mpu p =
     (if name = ''AngularVelocity'' then Some (snd (AngularVelocity mpu))
      else if name = ''LinearVelocity'' then Some (snd (LinearVelocity mpu))
      else if name = ''LinearAcceleration'' then Some (snd (LinearAcceleration mpu))
      else if name = ''Orientation'' then Some (snd (Orientation mpu))
      else if name = ''CompassHeading'' then Some (snd (CompassHeading mpu))
      else if name = ''Position'' then Some (snd (snd (Position mpu)))
      else if name = ''Accuracy'' then Some (snd (Accuracy mpu))
      else if name = ''Readings'' then Some (snd (Readings mpu))
      else if name = ''Properties'' then Some (snd (Properties mpu))
      else if name = ''Close'' then Some (fst (Close bus mpu p))
      else None)"

subsection \<open>Simulated buses and initial data for the concrete scenarios\<close>

text \<open>
  A bus on which every transaction succeeds: register 117 answers \<open>identity\<close>, registers
  27 and 28 answer the scale bytes \<open>gyro\<close> and \<open>accel\<close>, and the burst read at register 59
  answers \<open>burst\<close>.
\<close>

definition sim_bus :: "byte \<Rightarrow> byte \<Rightarrow> byte \<Rightarrow> byte list \<Rightarrow> i2c_bus" where
  "sim_bus identity gyro accel burst =
     \<lparr>OpenHandle = (\<lambda>addr. None),
      ReadBlockData = (\<lambda>addr register len.
         if register = 117 then ([identity], None)
         else if register = 27 then ([gyro], None)
         else if register = 28 then ([accel], None)
         else if register = 59 then (burst, None)
         else (replicate (unat len) 0, None)),
      WriteByteData = (\<lambda>addr register v. None),
      CloseHandle = (\<lambda>addr. None)\<rparr>"

text \<open>A bus on which every read and every write fails with the fault \<open>m\<close>.\<close>

definition failing_bus :: "string \<Rightarrow> i2c_bus" where
  "failing_bus m =
     \<lparr>OpenHandle = (\<lambda>addr. None),
      ReadBlockData = (\<lambda>addr register len. ([], Some (BusFault m))),
      WriteByteData = (\<lambda>addr register v. Some (BusFault m)),
      CloseHandle = (\<lambda>addr. None)\<rparr>"

definition process0 :: process where
  "process0 = \<lparr>gyroScale = 0, accelScale = 0, logged = []\<rparr>"

definition conf0 :: "error + Config" where
  "conf0 = Inr \<lparr>I2cBus = ''1'', UseAlternateI2CAddress = False\<rparr>"

text \<open>Accelerometer raw \<open>(0, 0, 16384)\<close>, temperature raw 0, gyroscope raw \<open>(0, 0, 0)\<close>.\<close>

definition burst_B :: "byte list" where
  "burst_B = [0, 0, 0, 0, 0x40, 0, 0, 0, 0, 0, 0, 0, 0, 0]"

text \<open>
  Accelerometer raw \<open>(1, 2, 3)\<close>, the temperature bytes \<open>0x82 0x6B\<close> (33387 as an unsigned
  16-bit number), gyroscope raw \<open>(256, -1, 2)\<close>.
\<close>

definition burst_T :: "byte list" where
  "burst_T = [0, 1, 0, 2, 0, 3, 0x82, 0x6B, 1, 0, 0xFF, 0xFF, 0, 2]"

text \<open>The sensor and the process state that scenario B's construction produces.\<close>

definition sensor_B :: mpu9250 where
  "sensor_B = (new_sensor 0x68)\<lparr>workers := WorkersRunning\<rparr>"

definition process_B :: process where
  "process_B =
     \<lparr>gyroScale = 250 / 32768, accelScale = 2 / 32768,
      logged = [CDebugf ''Using address %d for MPU9250 sensor'' [ArgByte 0x68]]\<rparr>"

text \<open>
  Ten ticks that fail and succeed in turn (five failures), and twelve ticks of which the
  first six fail (four failures among the last ten).
\<close>

definition flaky_buses :: "i2c_bus list" where
  "flaky_buses =
     [failing_bus ''EIO'', sim_bus 0x71 0 0 burst_B, failing_bus ''EIO'', sim_bus 0x71 0 0 burst_B,
      failing_bus ''EIO'', sim_bus 0x71 0 0 burst_B, failing_bus ''EIO'', sim_bus 0x71 0 0 burst_B,
      failing_bus ''EIO'', sim_bus 0x71 0 0 burst_B]"

definition recovering_buses :: "i2c_bus list" where
  "recovering_buses =
     [failing_bus ''EIO'', failing_bus ''EIO'', failing_bus ''EIO'', failing_bus ''EIO'',
      failing_bus ''EIO'', failing_bus ''EIO'', sim_bus 0x71 0 0 burst_B, sim_bus 0x71 0 0 burst_B,
      sim_bus 0x71 0 0 burst_B, sim_bus 0x71 0 0 burst_B, sim_bus 0x71 0 0 burst_B,
      sim_bus 0x71 0 0 burst_B]"

text \<open>
  Scenario A: ten ticks that all fail. The stale scenario: one tick that succeeds with
  \<open>burst_T\<close>, then ten ticks that fail.
\<close>

definition buses_A :: "i2c_bus list" where
  "buses_A =
     [failing_bus ''EIO'', failing_bus ''EIO'', failing_bus ''EIO'', failing_bus ''EIO'', failing_bus ''EIO'',
      failing_bus ''EIO'', failing_bus ''EIO'', failing_bus ''EIO'', failing_bus ''EIO'', failing_bus ''EIO'']"

text \<open>The tracker's window after the ten failures of \<open>buses_A\<close>.\<close>

definition faults_A :: "error option list" where
  "faults_A = map (\<lambda>b. Some (BusFault ''EIO'')) buses_A"

definition stale_buses :: "i2c_bus list" where
  "stale_buses = sim_bus 0x71 0 0 burst_T # buses_A"

text \<open>The sensor of scenario B after one tick that succeeds with \<open>burst_T\<close>.\<close>

definition sensor_T :: mpu9250 where
  "sensor_T =
     sensor_B\<lparr>err := Set_err None (err sensor_B),
              linearAcceleration := \<lparr>X = 981 / 1638400, Y = 981 / 819200, Z = 2943 / 1638400\<rparr>,
              temperature := - (2513773 / 33387),
              angularVelocity := \<lparr>X = 125 / 64, Y = - (125 / 16384), Z = 125 / 8192\<rparr>\<rparr>"

section \<open>Properties\<close>

subsection \<open>The tracker's window\<close>

lemma Set_err_window_size: "window_size (Set_err e le) = window_size le"
  by (simp add: Set_err_def)

lemma Set_err_threshold: "threshold (Set_err e le) = threshold le"
  by (simp add: Set_err_def)

lemma foldl_Set_err_window_size:
  "window_size (foldl (\<lambda>le a. Set_err a le) le xs) = window_size le"
  by (induction xs arbitrary: le) (simp_all add: Set_err_window_size)

lemma foldl_Set_err_threshold:
  "threshold (foldl (\<lambda>le a. Set_err a le) le xs) = threshold le"
  by (induction xs arbitrary: le) (simp_all add: Set_err_threshold)

lemma foldl_Set_err_errs:
  "errs (foldl (\<lambda>le a. Set_err a le) (NewLastError n t) xs) = drop (length xs - n) xs"
proof (induction xs rule: rev_induct)
  case Nil
  show ?case by (simp add: NewLastError_def)
next
  case (snoc x xs)
  have w: "window_size (foldl (\<lambda>le a. Set_err a le) (NewLastError n t) xs) = n"
    by (simp add: foldl_Set_err_window_size NewLastError_def)
  show ?case
  proof (cases "length xs \<le> n")
    case True
    with snoc w show ?thesis by (simp add: Set_err_def)
  next
    case False
    with snoc w show ?thesis by (simp add: Set_err_def Suc_diff_le)
  qed
qed

lemma length_failures: "length (failures es) = length (filter (\<lambda>a. a \<noteq> None) es)"
  by (induction es) (simp_all add: failures_def split: option.splits)

lemma failures_Nil_iff: "failures es = [] \<longleftrightarrow> filter (\<lambda>a. a \<noteq> None) es = []"
  using length_failures [of es] by (metis length_0_conv)

lemma take_rev_drop: "take n (rev xs) = rev (drop (length xs - n) xs)"
  by (simp add: take_rev)

lemma Get_err_faulted_iff:
  "0 < threshold le \<Longrightarrow>
   Get_err le \<noteq> None \<longleftrightarrow> threshold le \<le> length (filter (\<lambda>a. a \<noteq> None) (errs le))"
  by (auto simp: Get_err_def Let_def length_failures failures_Nil_iff)

lemma tracker_faulted_iff:
  "(Get_err (foldl (\<lambda>le a. Set_err a le) (NewLastError 10 5) attempts) \<noteq> None) =
   (5 \<le> length (filter (\<lambda>a. a \<noteq> None) (take 10 (rev attempts))))"
proof -
  let ?le = "foldl (\<lambda>le a. Set_err a le) (NewLastError 10 5) attempts"
  have t: "threshold ?le = 5"
    by (simp add: foldl_Set_err_threshold NewLastError_def)
  have e: "errs ?le = drop (length attempts - 10) attempts"
    by (rule foldl_Set_err_errs)
  have "length (filter (\<lambda>a. a \<noteq> None) (take 10 (rev attempts))) =
        length (filter (\<lambda>a. a \<noteq> None) (errs ?le))"
    by (simp add: e take_rev_drop rev_filter [symmetric])
  moreover have "Get_err ?le \<noteq> None \<longleftrightarrow>
      threshold ?le \<le> length (filter (\<lambda>a. a \<noteq> None) (errs ?le))"
    by (rule Get_err_faulted_iff) (simp add: t)
  ultimately show ?thesis by (simp only: t)
qed

subsection \<open>Transactions and ticks\<close>

lemma readBlock_fst:
  "fst (readBlock bus mpu register len p) =
     (case OpenHandle bus (i2cAddress mpu) of
        Some e \<Rightarrow> ([], Some e)
      | None \<Rightarrow> ReadBlockData bus (i2cAddress mpu) register len)"
  by (simp add: readBlock_def split: option.splits)

lemma readBlock_fst_cong:
  "i2cAddress mpu' = i2cAddress mpu \<Longrightarrow>
   fst (readBlock bus mpu' register len p') = fst (readBlock bus mpu register len p)"
  by (simp add: readBlock_fst split: option.splits)

lemma close_handle_scales:
  "gyroScale (close_handle bus mpu p) = gyroScale p \<and>
   accelScale (close_handle bus mpu p) = accelScale p"
  by (simp add: close_handle_def split: option.splits)

lemma readBlock_scales:
  "gyroScale (snd (readBlock bus mpu register len p)) = gyroScale p \<and>
   accelScale (snd (readBlock bus mpu register len p)) = accelScale p"
  by (simp add: readBlock_def close_handle_scales split: option.splits)

lemma poll_tick_failed:
  assumes "snd (fst (readBlock bus sensor 59 14 p)) = Some e"
  shows "poll_tick bus sensor p =
     (Completed, sensor\<lparr>err := Set_err (Some e) (err sensor)\<rparr>,
      (snd (readBlock bus sensor 59 14 p))\<lparr>logged := logged (snd (readBlock bus sensor 59 14 p)) @
         [CErrorf (''error reading MPU9250 sensor: '%s'' @ [CHR 0x27]) [ArgErrorText e]]\<rparr>)"
  using assms by (cases "readBlock bus sensor 59 14 p") (auto simp: poll_tick_def Let_def)

lemma poll_tick_read:
  assumes "fst (readBlock bus sensor 59 14 p) = (rawData, None)"
  shows "poll_tick bus sensor p =
     (case decode (snd (readBlock bus sensor 59 14 p)) rawData of
        None \<Rightarrow> (Panicked, sensor\<lparr>err := Set_err None (err sensor)\<rparr>,
                 snd (readBlock bus sensor 59 14 p))
      | Some (la, t, av) \<Rightarrow>
          (Completed,
           sensor\<lparr>err := Set_err None (err sensor), linearAcceleration := la,
                  temperature := t, angularVelocity := av\<rparr>,
           snd (readBlock bus sensor 59 14 p)))"
  using assms
  by (cases "readBlock bus sensor 59 14 p")
     (auto simp: poll_tick_def Let_def split: option.splits prod.splits)

lemma poll_tick_err:
  assumes "poll_tick bus sensor p = (st, sensor', p')"
  shows "err sensor' = Set_err (snd (fst (readBlock bus sensor 59 14 p))) (err sensor) \<and>
         i2cAddress sensor' = i2cAddress sensor"
  using assms
  by (cases "readBlock bus sensor 59 14 p")
     (auto simp: poll_tick_def Let_def split: option.splits prod.splits)

lemma worker_ticks_err:
  "worker (map Tick buses) sensor p = (Blocked, sensor', p') \<Longrightarrow>
   err sensor' =
     foldl (\<lambda>le a. Set_err a le) (err sensor)
       (map (\<lambda>b. snd (fst (readBlock b sensor 59 14 q))) buses)"
proof (induction buses arbitrary: sensor p)
  case Nil
  then show ?case by simp
next
  case (Cons b buses)
  obtain st s1 p1 where pt: "poll_tick b sensor p = (st, s1, p1)"
    by (cases "poll_tick b sensor p") auto
  with Cons.prems have st: "st = Completed" and run: "worker (map Tick buses) s1 p1 = (Blocked, sensor', p')"
    by (cases st; simp)+
  from poll_tick_err [OF pt]
  have e1: "err s1 = Set_err (snd (fst (readBlock b sensor 59 14 p))) (err sensor)"
    and a1: "i2cAddress s1 = i2cAddress sensor" by simp_all
  have same: "\<And>b'. fst (readBlock b' s1 59 14 q) = fst (readBlock b' sensor 59 14 q)"
    using a1 by (rule readBlock_fst_cong)
  have "fst (readBlock b sensor 59 14 p) = fst (readBlock b sensor 59 14 q)"
    by (rule readBlock_fst_cong) simp
  with Cons.IH [OF run] e1 same show ?case by simp
qed

lemma decode_burst:
  "decode p [b0, b1, b2, b3, b4, b5, b6, b7, b8, b9, b10, b11, b12, b13] =
     Some (\<lparr>X = real_of_int (sint (be16 b0 b1)) * accelScale p * 9.81,
            Y = real_of_int (sint (be16 b2 b3)) * accelScale p * 9.81,
            Z = real_of_int (sint (be16 b4 b5)) * accelScale p * 9.81\<rparr>,
           real_of_int (sint (be16 b6 b7)) / 333.87 + 21.0,
           \<lparr>X = real_of_int (sint (be16 b8 b9)) * gyroScale p,
            Y = real_of_int (sint (be16 b10 b11)) * gyroScale p,
            Z = real_of_int (sint (be16 b12 b13)) * gyroScale p\<rparr>)"
  by (simp add: decode_def slice_def int16_at_def toLinearAcceleration_def
      toAngularVelocity_def setScale_def)

lemma makeMpu9250_sensor:
  assumes "makeMpu9250 conf bus p0 = (Some (Some sensor, None), p)"
  shows "\<exists>address. sensor = (new_sensor address)\<lparr>workers := WorkersRunning\<rparr>"
  using assms
  by (auto simp: makeMpu9250_def Let_def split: sum.splits option.splits prod.splits if_splits)

subsection \<open>Evaluation of the concrete scenarios\<close>

lemmas scenario_defs = sim_bus_def failing_bus_def process0_def conf0_def burst_B_def burst_T_def
  makeMpu9250_def readByte_def readBlock_def close_handle_def writeByte_def
  getReadingScales_def gyro_switch_def accel_switch_def
  expectedDefaultAddress_def alternateAddress_def defaultAddressRegister_def
  expectedConfigurationReadAddress_def new_sensor_def NewLastError_def Set_err_def Get_err_def
  failures_def poll_tick_def decode_def slice_def int16_at_def toLinearAcceleration_def
  toAngularVelocity_def setScale_def be16_def zero_Vector_def Let_def

lemma construct_B:
  "makeMpu9250 conf0 (sim_bus 0x71 0 0 burst_B) process0 = (Some (Some sensor_B, None), process_B)"
  by (simp add: scenario_defs sensor_B_def process_B_def)

lemma flaky_run:
  "fst (worker (map Tick flaky_buses) sensor_B process_B) = Blocked \<and>
   length (filter (\<lambda>b. snd (fst (readBlock b sensor_B 59 14 process_B)) \<noteq> None)
                       (take 10 (rev flaky_buses))) = 5"
  by (simp add: scenario_defs sensor_B_def process_B_def flaky_buses_def)

lemma recovering_run:
  "fst (worker (map Tick recovering_buses) sensor_B process_B) = Blocked \<and>
   length (filter (\<lambda>b. snd (fst (readBlock b sensor_B 59 14 process_B)) \<noteq> None)
                       (take 10 (rev recovering_buses))) = 4"
  by (simp add: scenario_defs sensor_B_def process_B_def recovering_buses_def)

lemma sensor_T_run:
  "worker (map Tick [sim_bus 0x71 0 0 burst_T]) sensor_B process_B = (Blocked, sensor_T, process_B)"
  by (simp add: scenario_defs sensor_B_def process_B_def sensor_T_def)

lemma failing_bus_read:
  "snd (fst (readBlock (failing_bus m) sensor 59 14 p)) = Some (BusFault m)"
  by (simp add: readBlock_def failing_bus_def)

lemma run_A:
  "fst (worker (map Tick buses_A) sensor_B process_B) = Blocked \<and>
   fst (snd (worker (map Tick buses_A) sensor_B process_B)) =
     sensor_B\<lparr>err := (err sensor_B)\<lparr>errs := faults_A\<rparr>\<rparr>"
  by (simp add: scenario_defs sensor_B_def process_B_def buses_A_def faults_A_def)

lemma run_stale:
  "fst (worker (map Tick stale_buses) sensor_B process_B) = Blocked \<and>
   fst (snd (worker (map Tick stale_buses) sensor_B process_B)) =
     sensor_T\<lparr>err := (err sensor_B)\<lparr>errs := faults_A\<rparr>\<rparr>"
  by (simp add: scenario_defs sensor_B_def process_B_def stale_buses_def buses_A_def sensor_T_def faults_A_def)

lemma Get_err_faults_A:
  "Get_err ((err sensor_B)\<lparr>errs := faults_A\<rparr>) = Some (BusFault ''EIO'')"
  by (simp add: scenario_defs sensor_B_def faults_A_def buses_A_def)

lemma poll_tick_burst:
  assumes "fst (readBlock bus sensor 59 14 p) =
             ([b0, b1, b2, b3, b4, b5, b6, b7, b8, b9, b10, b11, b12, b13], None)"
  shows "poll_tick bus sensor p =
     (Completed,
      sensor\<lparr>err := Set_err None (err sensor),
             linearAcceleration :=
               \<lparr>X = real_of_int (sint (be16 b0 b1)) * accelScale p * 9.81,
                Y = real_of_int (sint (be16 b2 b3)) * accelScale p * 9.81,
                Z = real_of_int (sint (be16 b4 b5)) * accelScale p * 9.81\<rparr>,
             temperature := real_of_int (sint (be16 b6 b7)) / 333.87 + 21.0,
             angularVelocity :=
               \<lparr>X = real_of_int (sint (be16 b8 b9)) * gyroScale p,
                Y = real_of_int (sint (be16 b10 b11)) * gyroScale p,
                Z = real_of_int (sint (be16 b12 b13)) * gyroScale p\<rparr>\<rparr>,
      snd (readBlock bus sensor 59 14 p))"
  by (simp add: poll_tick_read [OF assms] decode_burst readBlock_scales)

lemma sim_bus_burst:
  "fst (readBlock (sim_bus i g a burst) sensor 59 14 p) = (burst, None)"
  by (simp add: readBlock_def sim_bus_def)

lemma readByte_fst:
  "fst (readByte bus mpu register p) =
     (case fst (readBlock bus mpu register 1 p) of
        (result, Some e) \<Rightarrow> Some (0, Some e)
      | ([], None) \<Rightarrow> None
      | (b # bs, None) \<Rightarrow> Some (b, None))"
  by (cases "readBlock bus mpu register 1 p")
     (auto simp: readByte_def split: option.splits list.splits)

lemma makeMpu9250_identity_read:
  "fst (makeMpu9250 (Inr newConf) bus p) =
     (let address = (if UseAlternateI2CAddress newConf then alternateAddress
                     else expectedDefaultAddress);
          p0 = p\<lparr>logged := logged p @
                 [CDebugf ''Using address %d for MPU9250 sensor'' [ArgByte address]]\<rparr>
      in case fst (readByte bus (new_sensor address) defaultAddressRegister p0) of
           None \<Rightarrow> None
         | Some (defaultAddress, Some e) \<Rightarrow>
             Some (None, Some (addressReadError e address (I2cBus newConf)))
         | Some (defaultAddress, None) \<Rightarrow>
             if defaultAddress \<noteq> expectedConfigurationReadAddress
             then Some (None, Some (unexpectedDeviceError address defaultAddress))
             else fst (makeMpu9250 (Inr newConf) bus p))"
  unfolding makeMpu9250_def Let_def
  by (simp split: prod.split option.split)

section \<open>The claims\<close>

text \<open>
  C1. The scale codes 2 and 3: with register 27 answering 2 and register 28 answering 3,
  \<open>getReadingScales\<close> returns the scale factors 0 and 0, and construction stores them. The
  labels of the switch are 0, 1, ten and eleven, so the bytes 10 and 11 select what the
  codes 2 and 3 should, and a byte with other high bits (4, low bits 00) selects 0.
\<close>

theorem C1_scale_codes_2_3:
  "fst (getReadingScales (sim_bus 0x71 2 3 burst_B) sensor_B process0) = Some (0, 0, None) \<and>
   gyro_switch 0 = 250 / 32768 \<and> gyro_switch 1 = 500 / 32768 \<and>
   gyro_switch 2 = 0 \<and> gyro_switch 3 = 0 \<and>
   gyro_switch 10 = 1000 / 32768 \<and> gyro_switch 11 = 2000 / 32768 \<and>
   accel_switch 0 = 2 / 32768 \<and> accel_switch 1 = 4 / 32768 \<and>
   accel_switch 2 = 0 \<and> accel_switch 3 = 0 \<and>
   accel_switch 10 = 8 / 32768 \<and> accel_switch 11 = 16 / 32768 \<and>
   gyro_switch 4 = 0 \<and> accel_switch 4 = 0 \<and>
   fst (makeMpu9250 conf0 (sim_bus 0x71 2 3 burst_B) process0) = Some (Some sensor_B, None) \<and>
   gyroScale (snd (makeMpu9250 conf0 (sim_bus 0x71 2 3 burst_B) process0)) = 0 \<and>
   accelScale (snd (makeMpu9250 conf0 (sim_bus 0x71 2 3 burst_B) process0)) = 0"
  by (simp add: scenario_defs sensor_B_def)

text \<open>
  C2. Whenever the windowed tracker reports a fault, LinearAcceleration returns the zero
  vector with that error, while AngularVelocity returns the cached angular velocity with
  the same error.
\<close>

theorem C2_fault_asymmetry:
  assumes "Get_err (err mpu) = Some e"
  shows "LinearAcceleration mpu = (zero_Vector, Some e) \<and>
         AngularVelocity mpu = (angularVelocity mpu, Some e)"
  using assms by (simp add: LinearAcceleration_def AngularVelocity_def Let_def)

theorem C2_fault_asymmetry_witness:
  "makeMpu9250 conf0 (sim_bus 0x71 0 0 burst_B) process0 = (Some (Some sensor_B, None), process_B) \<and>
   Get_err (err (fst (snd (worker (map Tick buses_A) sensor_B process_B)))) = Some (BusFault ''EIO'') \<and>
   AngularVelocity (fst (snd (worker (map Tick buses_A) sensor_B process_B))) =
     (\<lparr>X = 0, Y = 0, Z = 0\<rparr>, Some (BusFault ''EIO'')) \<and>
   LinearAcceleration (fst (snd (worker (map Tick buses_A) sensor_B process_B))) =
     (\<lparr>X = 0, Y = 0, Z = 0\<rparr>, Some (BusFault ''EIO'')) \<and>
   Get_err (err (fst (snd (worker (map Tick stale_buses) sensor_B process_B)))) = Some (BusFault ''EIO'') \<and>
   AngularVelocity (fst (snd (worker (map Tick stale_buses) sensor_B process_B))) =
     (\<lparr>X = 125 / 64, Y = - (125 / 16384), Z = 125 / 8192\<rparr>, Some (BusFault ''EIO'')) \<and>
   LinearAcceleration (fst (snd (worker (map Tick stale_buses) sensor_B process_B))) =
     (\<lparr>X = 0, Y = 0, Z = 0\<rparr>, Some (BusFault ''EIO'')) \<and>
   linearAcceleration (fst (snd (worker (map Tick stale_buses) sensor_B process_B))) =
     \<lparr>X = 981 / 1638400, Y = 981 / 819200, Z = 2943 / 1638400\<rparr>"
proof -
  let ?sA = "fst (snd (worker (map Tick buses_A) sensor_B process_B))"
  let ?sT = "fst (snd (worker (map Tick stale_buses) sensor_B process_B))"
  have sA: "?sA = sensor_B\<lparr>err := (err sensor_B)\<lparr>errs := faults_A\<rparr>\<rparr>"
    using run_A by blast
  have sT: "?sT = sensor_T\<lparr>err := (err sensor_B)\<lparr>errs := faults_A\<rparr>\<rparr>"
    using run_stale by blast
  have gA: "Get_err (err ?sA) = Some (BusFault ''EIO'')"
    unfolding sA by (simp add: Get_err_faults_A)
  have gT: "Get_err (err ?sT) = Some (BusFault ''EIO'')"
    unfolding sT by (simp add: Get_err_faults_A)
  have vA: "angularVelocity ?sA = \<lparr>X = 0, Y = 0, Z = 0\<rparr>"
    unfolding sA by (simp add: sensor_B_def new_sensor_def zero_Vector_def)
  have vT: "angularVelocity ?sT = \<lparr>X = 125 / 64, Y = - (125 / 16384), Z = 125 / 8192\<rparr>"
    and lT: "linearAcceleration ?sT = \<lparr>X = 981 / 1638400, Y = 981 / 819200, Z = 2943 / 1638400\<rparr>"
    unfolding sT by (simp_all add: sensor_T_def)
  have "LinearAcceleration ?sA = (zero_Vector, Some (BusFault ''EIO'')) \<and>
        AngularVelocity ?sA = (angularVelocity ?sA, Some (BusFault ''EIO''))"
    by (rule C2_fault_asymmetry [OF gA])
  moreover have "LinearAcceleration ?sT = (zero_Vector, Some (BusFault ''EIO'')) \<and>
        AngularVelocity ?sT = (angularVelocity ?sT, Some (BusFault ''EIO''))"
    by (rule C2_fault_asymmetry [OF gT])
  ultimately show ?thesis
    using construct_B gA gT vA vT lT by (simp add: zero_Vector_def)
qed

text \<open>
  C3. For every sequence of transport attempts recorded into the error tracker, the tracker
  reports faulted if and only if at least 5 of the most recent 10 attempts failed, in
  whatever order; so with 4 failures among the last 10 it reports not faulted. First for
  the tracker alone, then for the tracker of a constructed sensor after any run of ticks of
  the acquisition loop, an attempt being the burst read of a tick.
\<close>

theorem C3_window_threshold:
  "(Get_err (foldl (\<lambda>le a. Set_err a le) (NewLastError 10 5) attempts) \<noteq> None) =
     (5 \<le> length (filter (\<lambda>a. a \<noteq> None) (take 10 (rev attempts)))) \<and>
   (makeMpu9250 conf bus0 p0 = (Some (Some sensor, None), p) \<and>
    worker (map Tick buses) sensor p = (Blocked, sensor', p') \<longrightarrow>
      (Get_err (err sensor') \<noteq> None) =
        (5 \<le> length (filter (\<lambda>b. snd (fst (readBlock b sensor 59 14 p)) \<noteq> None)
                       (take 10 (rev buses)))))"
proof (intro conjI impI)
  show "(Get_err (foldl (\<lambda>le a. Set_err a le) (NewLastError 10 5) attempts) \<noteq> None) =
     (5 \<le> length (filter (\<lambda>a. a \<noteq> None) (take 10 (rev attempts))))"
    by (rule tracker_faulted_iff)
next
  assume h: "makeMpu9250 conf bus0 p0 = (Some (Some sensor, None), p) \<and>
    worker (map Tick buses) sensor p = (Blocked, sensor', p')"
  let ?out = "\<lambda>b. snd (fst (readBlock b sensor 59 14 p))"
  from h makeMpu9250_sensor have "err sensor = NewLastError 10 5"
    by (fastforce simp: new_sensor_def)
  with h worker_ticks_err [of buses sensor p sensor' p' p]
  have "err sensor' = foldl (\<lambda>le a. Set_err a le) (NewLastError 10 5) (map ?out buses)"
    by simp
  moreover have "length (filter (\<lambda>a. a \<noteq> None) (take 10 (rev (map ?out buses)))) =
      length (filter (\<lambda>b. ?out b \<noteq> None) (take 10 (rev buses)))"
    by (simp add: rev_map take_map filter_map o_def)
  ultimately show "(Get_err (err sensor') \<noteq> None) =
        (5 \<le> length (filter (\<lambda>b. ?out b \<noteq> None) (take 10 (rev buses))))"
    using tracker_faulted_iff [of "map ?out buses"] by simp
qed

theorem C3_window_threshold_witness:
  "makeMpu9250 conf0 (sim_bus 0x71 0 0 burst_B) process0 = (Some (Some sensor_B, None), process_B) \<and>
   fst (worker (map Tick flaky_buses) sensor_B process_B) = Blocked \<and>
   Get_err (err (fst (snd (worker (map Tick flaky_buses) sensor_B process_B)))) \<noteq> None \<and>
   fst (worker (map Tick recovering_buses) sensor_B process_B) = Blocked \<and>
   Get_err (err (fst (snd (worker (map Tick recovering_buses) sensor_B process_B)))) = None"
proof -
  let ?w1 = "worker (map Tick flaky_buses) sensor_B process_B"
  let ?w2 = "worker (map Tick recovering_buses) sensor_B process_B"
  have w1: "?w1 = (Blocked, fst (snd ?w1), snd (snd ?w1))"
    using flaky_run by (simp add: prod_eq_iff)
  have w2: "?w2 = (Blocked, fst (snd ?w2), snd (snd ?w2))"
    using recovering_run by (simp add: prod_eq_iff)
  have "(Get_err (err (fst (snd ?w1))) \<noteq> None) =
      (5 \<le> length (filter (\<lambda>b. snd (fst (readBlock b sensor_B 59 14 process_B)) \<noteq> None)
                       (take 10 (rev flaky_buses))))"
    using C3_window_threshold [where conf = conf0 and ?bus0.0 = "sim_bus 0x71 0 0 burst_B"
      and ?p0.0 = process0 and sensor = sensor_B and p = process_B and buses = flaky_buses
      and sensor' = "fst (snd ?w1)" and p' = "snd (snd ?w1)"] construct_B w1
    by blast
  with flaky_run have f1: "Get_err (err (fst (snd ?w1))) \<noteq> None"
    by simp
  have "(Get_err (err (fst (snd ?w2))) \<noteq> None) =
      (5 \<le> length (filter (\<lambda>b. snd (fst (readBlock b sensor_B 59 14 process_B)) \<noteq> None)
                       (take 10 (rev recovering_buses))))"
    using C3_window_threshold [where conf = conf0 and ?bus0.0 = "sim_bus 0x71 0 0 burst_B"
      and ?p0.0 = process0 and sensor = sensor_B and p = process_B and buses = recovering_buses
      and sensor' = "fst (snd ?w2)" and p' = "snd (snd ?w2)"] construct_B w2
    by blast
  with recovering_run have f2: "Get_err (err (fst (snd ?w2))) = None"
    by simp
  from construct_B flaky_run recovering_run f1 f2 show ?thesis by blast
qed

text \<open>
  C4. The temperature published by a tick is decoded / 333.87 + 21.0, where decoded is the
  big-endian signed 16-bit reading of the two temperature bytes: raw 0 gives exactly 21.0,
  and every published temperature lies strictly between -78 and 120. So no raw value gives
  121.0: the bytes 0x82 0x6B (33387 read unsigned) decode to -32149 and give about -75.29,
  as the counterexample below computes.
\<close>

theorem C4_temperature:
  assumes "fst (readBlock bus sensor 59 14 p) =
             ([b0, b1, b2, b3, b4, b5, b6, b7, b8, b9, b10, b11, b12, b13], None)"
  shows "\<exists>sensor' p'. poll_tick bus sensor p = (Completed, sensor', p') \<and>
           temperature sensor' = real_of_int (sint (be16 b6 b7)) / 333.87 + 21.0 \<and>
           (b6 = 0 \<and> b7 = 0 \<longrightarrow> temperature sensor' = 21.0) \<and>
           - 78 < temperature sensor' \<and> temperature sensor' < 120"
proof -
  let ?s = "sint (be16 b6 b7)"
  have "?s < 32768" "- 32768 \<le> ?s"
    using sint_lt [of "be16 b6 b7"] sint_ge [of "be16 b6 b7"] by simp_all
  then have "real_of_int ?s < 32768" "- 32768 \<le> real_of_int ?s"
    by linarith+
  then have "- 78 < real_of_int ?s / 333.87 + 21.0" "real_of_int ?s / 333.87 + 21.0 < 120"
    by (simp_all add: field_simps)
  moreover have "b6 = 0 \<and> b7 = 0 \<longrightarrow> real_of_int ?s / 333.87 + 21.0 = 21.0"
    by (simp add: be16_def)
  ultimately show ?thesis
    by (simp add: poll_tick_burst [OF assms])
qed

theorem C4_temperature_witness:
  "fst (readBlock (sim_bus 0x71 0 0 burst_B) sensor_B 59 14 process_B) =
     ([0, 0, 0, 0, 0x40, 0, 0, 0, 0, 0, 0, 0, 0, 0], None) \<and>
   (\<exists>sensor' p'. poll_tick (sim_bus 0x71 0 0 burst_B) sensor_B process_B = (Completed, sensor', p') \<and>
      temperature sensor' = 21.0 \<and> - 78 < temperature sensor' \<and> temperature sensor' < 120)"
proof -
  have h: "fst (readBlock (sim_bus 0x71 0 0 burst_B) sensor_B 59 14 process_B) =
     ([0, 0, 0, 0, 0x40, 0, 0, 0, 0, 0, 0, 0, 0, 0], None)"
    by (simp add: sim_bus_burst burst_B_def)
  from C4_temperature [OF h] h show ?thesis by auto
qed

theorem C4_raw_33387_counterexample:
  "uint (be16 0x82 0x6B) = 33387 \<and> sint (be16 0x82 0x6B) = - 32149 \<and>
   fst (readBlock (sim_bus 0x71 0 0 burst_T) sensor_B 59 14 process_B) =
     ([0, 1, 0, 2, 0, 3, 0x82, 0x6B, 1, 0, 0xFF, 0xFF, 0, 2], None) \<and>
   temperature (fst (snd (poll_tick (sim_bus 0x71 0 0 burst_T) sensor_B process_B))) =
     - 32149 / 333.87 + 21.0 \<and>
   temperature (fst (snd (poll_tick (sim_bus 0x71 0 0 burst_T) sensor_B process_B))) < - 75 \<and>
   \<not> \<bar>temperature (fst (snd (poll_tick (sim_bus 0x71 0 0 burst_T) sensor_B process_B))) - 121.0\<bar> < 1"
proof -
  have h: "fst (readBlock (sim_bus 0x71 0 0 burst_T) sensor_B 59 14 process_B) =
     ([0, 1, 0, 2, 0, 3, 0x82, 0x6B, 1, 0, 0xFF, 0xFF, 0, 2], None)"
    by (simp add: sim_bus_burst burst_T_def)
  have d: "uint (be16 0x82 0x6B) = 33387" "sint (be16 0x82 0x6B) = - 32149"
    by (simp_all add: be16_def)
  have "temperature (fst (snd (poll_tick (sim_bus 0x71 0 0 burst_T) sensor_B process_B))) =
     - 32149 / 333.87 + 21.0"
    by (simp add: poll_tick_burst [OF h] d)
  with h d show ?thesis by simp
qed

text \<open>
  C5. During construction, when the read of the identity register 117 succeeds and the byte
  it returns is not 0x71, construction returns no sensor and the error
  unexpectedDeviceError; when the read itself fails, it returns no sensor and the error
  addressReadError wrapping the fault; the two errors are never equal.
\<close>

theorem C5_identity_mismatch:
  assumes "address = (if UseAlternateI2CAddress newConf then alternateAddress
                      else expectedDefaultAddress)"
  shows "(OpenHandle bus address = None \<and>
          ReadBlockData bus address 117 1 = (b # bs, None) \<and> b \<noteq> 0x71 \<longrightarrow>
            fst (makeMpu9250 (Inr newConf) bus p) =
              Some (None, Some (unexpectedDeviceError address b))) \<and>
         (snd (fst (readBlock bus' (new_sensor address) 117 1 p)) = Some e \<longrightarrow>
            fst (makeMpu9250 (Inr newConf) bus' p) =
              Some (None, Some (addressReadError e address (I2cBus newConf)))) \<and>
         unexpectedDeviceError address b \<noteq> addressReadError e' a s"
proof (intro conjI impI)
  let ?p0 = "p\<lparr>logged := logged p @
                 [CDebugf ''Using address %d for MPU9250 sensor'' [ArgByte address]]\<rparr>"
  {
    assume h: "OpenHandle bus address = None \<and>
          ReadBlockData bus address 117 1 = (b # bs, None) \<and> b \<noteq> 0x71"
    then have "fst (readBlock bus (new_sensor address) 117 1 ?p0) = (b # bs, None)"
      by (simp add: readBlock_fst new_sensor_def)
    then have "fst (readByte bus (new_sensor address) defaultAddressRegister ?p0) = Some (b, None)"
      by (simp add: readByte_fst defaultAddressRegister_def)
    with h show "fst (makeMpu9250 (Inr newConf) bus p) =
              Some (None, Some (unexpectedDeviceError address b))"
      by (simp add: makeMpu9250_identity_read [of newConf bus p] assms [symmetric]
          expectedConfigurationReadAddress_def)
  next
    assume h: "snd (fst (readBlock bus' (new_sensor address) 117 1 p)) = Some e"
    have "fst (readBlock bus' (new_sensor address) 117 1 ?p0) =
          fst (readBlock bus' (new_sensor address) 117 1 p)"
      by (rule readBlock_fst_cong) simp
    with h have "snd (fst (readBlock bus' (new_sensor address) 117 1 ?p0)) = Some e"
      by simp
    then have "fst (readByte bus' (new_sensor address) defaultAddressRegister ?p0) = Some (0, Some e)"
      by (cases "fst (readBlock bus' (new_sensor address) 117 1 ?p0)")
         (simp add: readByte_fst defaultAddressRegister_def split: list.splits)
    then show "fst (makeMpu9250 (Inr newConf) bus' p) =
              Some (None, Some (addressReadError e address (I2cBus newConf)))"
      by (simp add: makeMpu9250_identity_read [of newConf bus' p] assms [symmetric])
  next
    show "unexpectedDeviceError address b \<noteq> addressReadError e' a s"
      by (simp add: unexpectedDeviceError_def addressReadError_def)
  }
qed

theorem C5_identity_mismatch_witness:
  "OpenHandle (sim_bus 0x68 0 0 burst_B) 0x68 = None \<and>
   ReadBlockData (sim_bus 0x68 0 0 burst_B) 0x68 117 1 = ([0x68], None) \<and>
   (0x68 :: byte) \<noteq> 0x71 \<and>
   fst (makeMpu9250 conf0 (sim_bus 0x68 0 0 burst_B) process0) =
     Some (None, Some (unexpectedDeviceError 0x68 0x68)) \<and>
   snd (fst (readBlock (failing_bus ''EIO'') (new_sensor 0x68) 117 1 process0)) =
     Some (BusFault ''EIO'') \<and>
   fst (makeMpu9250 conf0 (failing_bus ''EIO'') process0) =
     Some (None, Some (addressReadError (BusFault ''EIO'') 0x68 ''1'')) \<and>
   unexpectedDeviceError 0x68 0x68 \<noteq> addressReadError (BusFault ''EIO'') 0x68 ''1''"
proof -
  have a: "(0x68 :: byte) =
      (if UseAlternateI2CAddress \<lparr>I2cBus = ''1'', UseAlternateI2CAddress = False\<rparr>
       then alternateAddress else expectedDefaultAddress)"
    by (simp add: expectedDefaultAddress_def)
  have h1: "OpenHandle (sim_bus 0x68 0 0 burst_B) 0x68 = None \<and>
      ReadBlockData (sim_bus 0x68 0 0 burst_B) 0x68 117 1 = ([0x68], None) \<and>
      (0x68 :: byte) \<noteq> 0x71"
    by (simp add: sim_bus_def)
  have h2: "snd (fst (readBlock (failing_bus ''EIO'') (new_sensor 0x68) 117 1 process0)) =
      Some (BusFault ''EIO'')"
    by (simp add: readBlock_def failing_bus_def)
  from C5_identity_mismatch [OF a, where bus = "sim_bus 0x68 0 0 burst_B" and b = "0x68"
      and bs = "[]" and p = process0 and bus' = "failing_bus ''EIO''" and e = "BusFault ''EIO''"
      and e' = "BusFault ''EIO''" and a = "0x68" and s = "''1''"] h1 h2
  show ?thesis by (simp add: conf0_def)
qed

text \<open>
  C6. Close stops the worker and then writes 64 (that is 1<<6) to register 107; the error
  of this write (of opening the handle, or of the write itself) is logged and is also the
  value Close returns, so Close returns nil exactly when the write succeeded. On a bus whose
  write fails Close returns the fault, as the counterexample below computes.
\<close>

theorem C6_Close_returns_write_error:
  "fst (Close bus mpu p) =
     (case OpenHandle bus (i2cAddress mpu) of
        Some x \<Rightarrow> Some x
      | None \<Rightarrow> WriteByteData bus (i2cAddress mpu) 107 64) \<and>
   fst (snd (Close bus mpu p)) = mpu\<lparr>workers := WorkersStopped\<rparr> \<and>
   logged (snd (snd (Close bus mpu p))) =
     logged (snd (writeByte bus (mpu\<lparr>workers := WorkersStopped\<rparr>) 107 64 p)) @
     (case fst (Close bus mpu p) of None \<Rightarrow> [] | Some x \<Rightarrow> [CError x]) \<and>
   (fst (Close bus mpu p) = None) =
     (OpenHandle bus (i2cAddress mpu) = None \<and> WriteByteData bus (i2cAddress mpu) 107 64 = None)"
  by (auto simp: Close_def writeByte_def Let_def split: option.splits prod.splits)

theorem C6_Close_counterexample:
  "fst (Close (failing_bus ''EIO'') sensor_B process_B) = Some (BusFault ''EIO'') \<and>
   fst (Close (failing_bus ''EIO'') sensor_B process_B) \<noteq> None \<and>
   logged (snd (snd (Close (failing_bus ''EIO'') sensor_B process_B))) =
     logged process_B @ [CError (BusFault ''EIO'')]"
  by (simp add: Close_def writeByte_def close_handle_def failing_bus_def sensor_B_def)

text \<open>
  C7. On every poll tick whose 14-byte burst read fails, the tick completes with the published
  angular velocity, linear acceleration and temperature unchanged, the error is recorded
  in the tracker, and the loop goes on with the events that follow.
\<close>

theorem C7_failed_tick_keeps_snapshot:
  assumes "snd (fst (readBlock bus sensor 59 14 p)) = Some e"
  shows "\<exists>sensor' p'. poll_tick bus sensor p = (Completed, sensor', p') \<and>
           angularVelocity sensor' = angularVelocity sensor \<and>
           linearAcceleration sensor' = linearAcceleration sensor \<and>
           temperature sensor' = temperature sensor \<and>
           err sensor' = Set_err (Some e) (err sensor) \<and>
           worker (Tick bus # evs) sensor p = worker evs sensor' p'"
  by (simp add: poll_tick_failed [OF assms])

theorem C7_failed_tick_keeps_snapshot_witness:
  "snd (fst (readBlock (failing_bus ''EIO'') sensor_T 59 14 process_B)) = Some (BusFault ''EIO'') \<and>
   (\<exists>sensor' p'. poll_tick (failing_bus ''EIO'') sensor_T process_B = (Completed, sensor', p') \<and>
      angularVelocity sensor' = \<lparr>X = 125 / 64, Y = - (125 / 16384), Z = 125 / 8192\<rparr> \<and>
      linearAcceleration sensor' = \<lparr>X = 981 / 1638400, Y = 981 / 819200, Z = 2943 / 1638400\<rparr> \<and>
      temperature sensor' = - (2513773 / 33387) \<and>
      err sensor' = Set_err (Some (BusFault ''EIO'')) (err sensor_T) \<and>
      worker [Tick (failing_bus ''EIO''), Done] sensor_T process_B = (Returned, sensor', p'))"
proof -
  have h: "snd (fst (readBlock (failing_bus ''EIO'') sensor_T 59 14 process_B)) = Some (BusFault ''EIO'')"
    by (rule failing_bus_read)
  from C7_failed_tick_keeps_snapshot [OF h, of "[Done]"]
  obtain sensor' p' where
    "poll_tick (failing_bus ''EIO'') sensor_T process_B = (Completed, sensor', p')"
    "angularVelocity sensor' = angularVelocity sensor_T"
    "linearAcceleration sensor' = linearAcceleration sensor_T"
    "temperature sensor' = temperature sensor_T"
    "err sensor' = Set_err (Some (BusFault ''EIO'')) (err sensor_T)"
    "worker [Tick (failing_bus ''EIO''), Done] sensor_T process_B = worker [Done] sensor' p'"
    by blast
  then have "poll_tick (failing_bus ''EIO'') sensor_T process_B = (Completed, sensor', p') \<and>
      angularVelocity sensor' = \<lparr>X = 125 / 64, Y = - (125 / 16384), Z = 125 / 8192\<rparr> \<and>
      linearAcceleration sensor' = \<lparr>X = 981 / 1638400, Y = 981 / 819200, Z = 2943 / 1638400\<rparr> \<and>
      temperature sensor' = - (2513773 / 33387) \<and>
      err sensor' = Set_err (Some (BusFault ''EIO'')) (err sensor_T) \<and>
      worker [Tick (failing_bus ''EIO''), Done] sensor_T process_B = (Returned, sensor', p')"
    by (simp add: sensor_T_def)
  with h show ?thesis by blast
qed

text \<open>
  C8. The methods that the driver leaves unsupported are LinearVelocity, Orientation,
  CompassHeading and Position: every call returns the method's own fixed unimplemented
  error, whatever the state of the sensor and of its error tracker, and that error is none
  of the bus faults. The source declares no method Temperature; the temperature is
  published by Readings, as the counterexample below computes.
\<close>

theorem C8_unimplemented_methods:
  "snd (LinearVelocity mpu) = Some ErrMethodUnimplementedLinearVelocity \<and>
   snd (Orientation mpu) = Some ErrMethodUnimplementedOrientation \<and>
   snd (CompassHeading mpu) = Some ErrMethodUnimplementedCompassHeading \<and>
   snd (snd (Position mpu)) = Some ErrMethodUnimplementedPosition \<and>
   LinearVelocity (mpu\<lparr>err := le\<rparr>) = LinearVelocity mpu \<and>
   Orientation (mpu\<lparr>err := le\<rparr>) = Orientation mpu \<and>
   CompassHeading (mpu\<lparr>err := le\<rparr>) = CompassHeading mpu \<and>
   Position (mpu\<lparr>err := le\<rparr>) = Position mpu \<and>
   method_error ''LinearVelocity'' bus mpu p = Some (Some ErrMethodUnimplementedLinearVelocity) \<and>
   method_error ''Orientation'' bus mpu p = Some (Some ErrMethodUnimplementedOrientation) \<and>
   method_error ''CompassHeading'' bus mpu p = Some (Some ErrMethodUnimplementedCompassHeading) \<and>
   method_error ''Position'' bus mpu p = Some (Some ErrMethodUnimplementedPosition) \<and>
   BusFault m \<noteq> ErrMethodUnimplementedLinearVelocity \<and>
   BusFault m \<noteq> ErrMethodUnimplementedOrientation \<and>
   BusFault m \<noteq> ErrMethodUnimplementedCompassHeading \<and>
   BusFault m \<noteq> ErrMethodUnimplementedPosition"
  by (simp add: LinearVelocity_def Orientation_def CompassHeading_def Position_def
      method_error_def)

theorem C8_Temperature_counterexample:
  "method_error ''Temperature'' (sim_bus 0x71 0 0 burst_B) sensor_B process_B = None \<and>
   fst (Readings sensor_B) ''temperature_celsius'' = Some (Float64Value 0) \<and>
   snd (Readings sensor_B) = None"
  by (simp add: method_error_def Readings_def Let_def sensor_B_def new_sensor_def
      Get_err_def NewLastError_def failures_def)

text \<open>
  C9. A tick whose burst read succeeds publishes, for each axis, the decoded acceleration
  times accelScale times 9.81, the decoded rotation times gyroScale, and the decoded
  temperature divided by 333.87 plus 21. With scale codes (0, 0), accelerometer raw
  (0, 0, 16384), gyroscope raw (0, 0, 0) and temperature raw 0 this is the acceleration
  (0, 0, 9.81), the angular velocity (0, 0, 0) and the temperature 21.
\<close>

theorem C9_published_sample:
  assumes "fst (readBlock bus sensor 59 14 p) =
             ([b0, b1, b2, b3, b4, b5, b6, b7, b8, b9, b10, b11, b12, b13], None)"
  shows "\<exists>sensor' p'. poll_tick bus sensor p = (Completed, sensor', p') \<and>
           linearAcceleration sensor' =
             \<lparr>X = real_of_int (sint (be16 b0 b1)) * accelScale p * 9.81,
              Y = real_of_int (sint (be16 b2 b3)) * accelScale p * 9.81,
              Z = real_of_int (sint (be16 b4 b5)) * accelScale p * 9.81\<rparr> \<and>
           angularVelocity sensor' =
             \<lparr>X = real_of_int (sint (be16 b8 b9)) * gyroScale p,
              Y = real_of_int (sint (be16 b10 b11)) * gyroScale p,
              Z = real_of_int (sint (be16 b12 b13)) * gyroScale p\<rparr> \<and>
           temperature sensor' = real_of_int (sint (be16 b6 b7)) / 333.87 + 21.0"
  by (simp add: poll_tick_burst [OF assms])

theorem C9_published_sample_witness:
  "makeMpu9250 conf0 (sim_bus 0x71 0 0 burst_B) process0 = (Some (Some sensor_B, None), process_B) \<and>
   fst (readBlock (sim_bus 0x71 0 0 burst_B) sensor_B 59 14 process_B) =
     ([0, 0, 0, 0, 0x40, 0, 0, 0, 0, 0, 0, 0, 0, 0], None) \<and>
   sint (be16 0x40 0) = 16384 \<and>
   (\<exists>sensor' p'. poll_tick (sim_bus 0x71 0 0 burst_B) sensor_B process_B = (Completed, sensor', p') \<and>
      linearAcceleration sensor' = \<lparr>X = 0, Y = 0, Z = 16384 * (2.0 / 32768) * 9.81\<rparr> \<and>
      linearAcceleration sensor' = \<lparr>X = 0, Y = 0, Z = 9.81\<rparr> \<and>
      angularVelocity sensor' = \<lparr>X = 0, Y = 0, Z = 0\<rparr> \<and>
      temperature sensor' = 21.0)"
proof -
  have h: "fst (readBlock (sim_bus 0x71 0 0 burst_B) sensor_B 59 14 process_B) =
     ([0, 0, 0, 0, 0x40, 0, 0, 0, 0, 0, 0, 0, 0, 0], None)"
    by (simp add: sim_bus_burst burst_B_def)
  have d: "sint (be16 0x40 0) = 16384" "sint (be16 0 0) = 0"
    by (simp_all add: be16_def)
  from C9_published_sample [OF h]
  obtain sensor' p' where
    "poll_tick (sim_bus 0x71 0 0 burst_B) sensor_B process_B = (Completed, sensor', p')"
    "linearAcceleration sensor' =
       \<lparr>X = real_of_int (sint (be16 0 0)) * accelScale process_B * 9.81,
        Y = real_of_int (sint (be16 0 0)) * accelScale process_B * 9.81,
        Z = real_of_int (sint (be16 0x40 0)) * accelScale process_B * 9.81\<rparr>"
    "angularVelocity sensor' =
       \<lparr>X = real_of_int (sint (be16 0 0)) * gyroScale process_B,
        Y = real_of_int (sint (be16 0 0)) * gyroScale process_B,
        Z = real_of_int (sint (be16 0 0)) * gyroScale process_B\<rparr>"
    "temperature sensor' = real_of_int (sint (be16 0 0)) / 333.87 + 21.0"
    by blast
  then have "poll_tick (sim_bus 0x71 0 0 burst_B) sensor_B process_B = (Completed, sensor', p') \<and>
      linearAcceleration sensor' = \<lparr>X = 0, Y = 0, Z = 16384 * (2.0 / 32768) * 9.81\<rparr> \<and>
      linearAcceleration sensor' = \<lparr>X = 0, Y = 0, Z = 9.81\<rparr> \<and>
      angularVelocity sensor' = \<lparr>X = 0, Y = 0, Z = 0\<rparr> \<and>
      temperature sensor' = 21.0"
    by (simp add: d process_B_def)
  with construct_B h d show ?thesis by blast
qed

text \<open>
  C10. Every call to Readings returns a map with exactly the three keys
  linear_acceleration, temperature_celsius and angular_velocity, whose values are the
  current snapshot, paired with the current verdict of the windowed error tracker.
\<close>

theorem C10_Readings:
  "dom (fst (Readings mpu)) = {''linear_acceleration'', ''temperature_celsius'', ''angular_velocity''} \<and>
   fst (Readings mpu) ''linear_acceleration'' = Some (VectorValue (linearAcceleration mpu)) \<and>
   fst (Readings mpu) ''temperature_celsius'' = Some (Float64Value (temperature mpu)) \<and>
   fst (Readings mpu) ''angular_velocity'' = Some (AngularVelocityValue (angularVelocity mpu)) \<and>
   snd (Readings mpu) = Get_err (err mpu)"
  by (auto simp: Readings_def Let_def)

end
